theory Spec2Isabelle
  imports Main
begin

section \<open>Solax inverter sensor platform\<close>

text \<open>
  A shallow embedding of \<^verbatim>\<open>homeassistant/components/solax/sensor.py\<close>: the entity
  class \<^verbatim>\<open>InverterEntity\<close>, the poller \<^verbatim>\<open>RealTimeDataEndpoint\<close> with its
  \<^verbatim>\<open>async_refresh\<close> method, and the platform setup \<^verbatim>\<open>async_setup_entry\<close>.
  Mutation is explicit state passing, exceptions are values, and the answer of the
  inverter to \<^verbatim>\<open>api.get_data()\<close> is an argument of the function that awaits it.
\<close>

subsection \<open>Python values and exceptions\<close>

text \<open>
  A reading is any Python value; \<open>PyNone\<close> is \<^verbatim>\<open>None\<close>, the value a freshly
  constructed entity holds.
\<close>

datatype 'a pyval = PyNone | PyVal 'a

text \<open>
  The exceptions the module meets. \<open>InverterError\<close> is the client library's error,
  \<open>PlatformNotReady cause\<close> is \<^verbatim>\<open>raise PlatformNotReady from err\<close>, \<open>KeyError\<close> is a
  failed dictionary subscript and \<open>OtherException\<close> stands for every other class.
\<close>

datatype pyexc =
    InverterError string
  | PlatformNotReady pyexc
  | KeyError string
  | OtherException string

subsection \<open>The client library\<close>

text \<open>
  The members of \<^verbatim>\<open>solax.units.Units\<close> that the module names, and \<open>Units_other\<close> for
  any further member of that enumeration.
\<close>

datatype Units =
    Units_C | Units_KWH | Units_V | Units_A | Units_W | Units_PERCENT
  | Units_other string

text \<open>
  A unit object of the sensor map, as far as the module observes it: whether it is an
  instance of \<^verbatim>\<open>Monotonic\<close>, and its attribute \<^verbatim>\<open>unit\<close>.
\<close>

record measurement =
  isinstance_Monotonic :: bool
  unit :: Units

text \<open>
  What the module imports and this file does not define: the constants of
  \<^verbatim>\<open>.const\<close>, the comparison \<^verbatim>\<open>==\<close> of a unit object with a member of
  \<^verbatim>\<open>Units\<close> (the library's \<^verbatim>\<open>__eq__\<close>), and the attribute \<^verbatim>\<open>value\<close> of a member.
  They are parameters of the setup.
\<close>

record imported =
  DOMAIN :: string
  MANUFACTURER :: string
  unit_eq :: "measurement \<Rightarrow> Units \<Rightarrow> bool"
  Units_value :: "Units \<Rightarrow> string"

text \<open>The response of \<^verbatim>\<open>api.get_data()\<close>.\<close>

record 'a InverterResponse =
  data :: "string \<rightharpoonup> 'a pyval"
  serial_number :: string
  version :: string

text \<open>
  \<^verbatim>\<open>RealTimeAPI\<close>: the manufacturer of its inverter and the items of
  \<^verbatim>\<open>inverter.sensor_map()\<close> in iteration order, each \<^verbatim>\<open>sensor, (idx, unit)\<close>.
\<close>

record RealTimeAPI =
  inverter_manufacturer :: string
  inverter_sensor_map :: "(string \<times> int \<times> measurement) list"

text \<open>An awaited \<^verbatim>\<open>get_data()\<close> either raises or returns a response.\<close>

type_synonym 'a fetched = "pyexc + 'a InverterResponse"

subsection \<open>The host's enumerations\<close>

datatype SensorStateClass = TOTAL_INCREASING | MEASUREMENT

datatype SensorDeviceClass = TEMPERATURE | ENERGY | VOLTAGE | CURRENT | POWER | BATTERY

record DeviceInfo =
  identifiers :: "(string \<times> string) set"
  manufacturer :: string
  name :: string
  sw_version :: string

text \<open>\<^verbatim>\<open>timedelta\<close>, normalised as Python keeps it.\<close>

record timedelta =
  days :: int
  seconds :: int
  microseconds :: int

definition timedelta_seconds :: "int \<Rightarrow> timedelta" where
  "timedelta_seconds s = \<lparr>days = s div 86400, seconds = s mod 86400, microseconds = 0\<rparr>"

definition total_seconds :: "timedelta \<Rightarrow> int" where
  "total_seconds d = days d * 86400 + seconds d"

subsection \<open>Module constants\<close>

definition DEFAULT_PORT :: int where
  "DEFAULT_PORT = 80"

definition SCAN_INTERVAL :: timedelta where
  "SCAN_INTERVAL = timedelta_seconds 30"

subsection \<open>InverterEntity\<close>

record 'a InverterEntity =
  attr_unique_id :: string
  attr_name :: string
  attr_native_unit_of_measurement :: string
  attr_state_class :: "SensorStateClass option"
  attr_device_class :: "SensorDeviceClass option"
  attr_device_info :: DeviceInfo
  key :: string
  sensor_value :: "'a pyval"

text \<open>
  \<^verbatim>\<open>InverterEntity.__init__\<close>. The first argument is the module constant
  \<^verbatim>\<open>MANUFACTURER\<close>, which the body reads beside its own parameter \<^verbatim>\<open>manufacturer\<close>.
\<close>

definition InverterEntity_init ::
  "imported \<Rightarrow> string \<Rightarrow> string \<Rightarrow> string \<Rightarrow> string \<Rightarrow> string \<Rightarrow> string \<Rightarrow>
   SensorStateClass option \<Rightarrow> SensorDeviceClass option \<Rightarrow> 'a InverterEntity" where
  "InverterEntity_init imp manufacturer' uid serial version' key' unit' state_class device_class =
     \<lparr>attr_unique_id = uid,
      attr_name = manufacturer' @ '' '' @ serial @ '' '' @ key',
      attr_native_unit_of_measurement = unit',
      attr_state_class = state_class,
      attr_device_class = device_class,
      attr_device_info =
        \<lparr>identifiers = {(DOMAIN imp, serial)},
         manufacturer = MANUFACTURER imp,
         name = manufacturer' @ '' '' @ serial,
         sw_version = version'\<rparr>,
      key = key',
      sensor_value = PyNone\<rparr>"

definition native_value :: "'a InverterEntity \<Rightarrow> 'a pyval" where
  "native_value self = sensor_value self"

subsection \<open>RealTimeDataEndpoint\<close>

text \<open>
  The poller. \<open>ready\<close> is whether the \<^verbatim>\<open>asyncio.Event\<close> is set; \<open>sensors\<close> holds the
  entities, each a distinct object, so the list of records is the list of objects.
\<close>

record 'a RealTimeDataEndpoint =
  api :: RealTimeAPI
  ready :: bool
  sensors :: "'a InverterEntity list"

definition RealTimeDataEndpoint_init :: "RealTimeAPI \<Rightarrow> 'a RealTimeDataEndpoint" where
  "RealTimeDataEndpoint_init api' = \<lparr>api = api', ready = False, sensors = []\<rparr>"

text \<open>
  The loop of \<^verbatim>\<open>async_refresh\<close> over \<^verbatim>\<open>self.sensors\<close>. It returns the entities after
  the loop and, in call order, the positions in \<^verbatim>\<open>self.sensors\<close> of the entities on
  which \<^verbatim>\<open>async_schedule_update_ha_state()\<close> was called; \<open>i\<close> is the position of the
  head of the list.
\<close>

fun refresh_sensors ::
  "(string \<rightharpoonup> 'a pyval) \<Rightarrow> nat \<Rightarrow> 'a InverterEntity list \<Rightarrow> 'a InverterEntity list \<times> nat list" where
  "refresh_sensors d i [] = ([], [])"
| "refresh_sensors d i (sensor # rest) =
     (let (rest', updates) = refresh_sensors d (Suc i) rest
      in case d (key sensor) of
           None \<Rightarrow> (sensor # rest', updates)
         | Some v \<Rightarrow> (sensor\<lparr>sensor_value := v\<rparr> # rest', i # updates))"

text \<open>
  What a call of \<^verbatim>\<open>async_refresh\<close> leaves behind: the endpoint, the re-render requests
  it issued, and the exception it raised, if any.
\<close>

record 'a refreshed =
  after :: "'a RealTimeDataEndpoint"
  scheduled_updates :: "nat list"
  raised :: "pyexc option"

text \<open>
  \<^verbatim>\<open>async_refresh(self, now=None)\<close>. \<open>now\<close> is \<open>None\<close> for the call queued at setup
  and the time of the tick for a call made by the interval timer; \<open>fetch\<close> is what
  \<^verbatim>\<open>await self.api.get_data()\<close> does.
\<close>

definition async_refresh ::
  "'a RealTimeDataEndpoint \<Rightarrow> int option \<Rightarrow> 'a fetched \<Rightarrow> 'a refreshed" where
  "async_refresh self now fetch =
     (case fetch of
        Inl err \<Rightarrow>
          (case err of
             InverterError m \<Rightarrow>
               if now \<noteq> None
               then \<lparr>after = self\<lparr>ready := False\<rparr>, scheduled_updates = [], raised = None\<rparr>
               else \<lparr>after = self, scheduled_updates = [], raised = Some (PlatformNotReady err)\<rparr>
           | _ \<Rightarrow> \<lparr>after = self, scheduled_updates = [], raised = Some err\<rparr>)
      | Inr api_response \<Rightarrow>
          (let self' = self\<lparr>ready := True\<rparr>;
               (sensors', updates) = refresh_sensors (data api_response) 0 (sensors self')
           in \<lparr>after = self'\<lparr>sensors := sensors'\<rparr>, scheduled_updates = updates, raised = None\<rparr>))"

subsection \<open>Platform setup\<close>

text \<open>\<^verbatim>\<open>str\<close> of an integer, as the f-string of the unique id formats \<^verbatim>\<open>idx\<close>.\<close>

fun str_nat :: "nat \<Rightarrow> string" where
  "str_nat n =
     (if n < 10 then [char_of (48 + n)]
      else str_nat (n div 10) @ [char_of (48 + n mod 10)])"

declare str_nat.simps [simp del]

definition str_int :: "int \<Rightarrow> string" where
  "str_int i = (if i < 0 then ''-'' @ str_nat (nat (- i)) else str_nat (nat i))"

text \<open>The two selections in the body of the loop of \<^verbatim>\<open>async_setup_entry\<close>.\<close>

definition state_class_of :: "measurement \<Rightarrow> SensorStateClass option" where
  "state_class_of unit' =
     (if isinstance_Monotonic unit' then Some TOTAL_INCREASING else Some MEASUREMENT)"

definition device_class_of :: "imported \<Rightarrow> measurement \<Rightarrow> SensorDeviceClass option" where
  "device_class_of imp unit' =
     (if unit unit' = Units_C then Some TEMPERATURE
      else if unit_eq imp unit' Units_KWH then Some ENERGY
      else if unit_eq imp unit' Units_V then Some VOLTAGE
      else if unit_eq imp unit' Units_A then Some CURRENT
      else if unit_eq imp unit' Units_W then Some POWER
      else if unit_eq imp unit' Units_PERCENT then Some BATTERY
      else None)"

text \<open>One iteration of the loop: the entity appended for an item of the sensor map.\<close>

fun make_device ::
  "imported \<Rightarrow> RealTimeAPI \<Rightarrow> string \<Rightarrow> string \<Rightarrow> string \<times> int \<times> measurement \<Rightarrow>
   'a InverterEntity" where
  "make_device imp api' serial version' (sensor, idx, unit') =
     InverterEntity_init imp
       (inverter_manufacturer api')
       (serial @ ''-'' @ str_int idx)
       serial
       version'
       sensor
       (Units_value imp (unit unit'))
       (state_class_of unit')
       (device_class_of imp unit')"

text \<open>
  What the setup leaves behind: the endpoint, the arguments \<^verbatim>\<open>now\<close> of the refresh
  calls queued with \<^verbatim>\<open>hass.async_add_job\<close>, the intervals at which
  \<^verbatim>\<open>async_track_time_interval\<close> was told to call \<^verbatim>\<open>endpoint.async_refresh\<close>, and the
  entities handed to \<^verbatim>\<open>async_add_entities\<close>.
\<close>

record 'a platform =
  endpoint :: "'a RealTimeDataEndpoint"
  queued_refreshes :: "int option list"
  tracked_intervals :: "timedelta list"
  added_entities :: "'a InverterEntity list"

text \<open>
  \<^verbatim>\<open>async_setup_entry\<close>. \<open>hass_data\<close> is \<^verbatim>\<open>hass.data\<close>, \<open>entry_id\<close> is
  \<^verbatim>\<open>entry.entry_id\<close> and \<open>fetch\<close> is what \<^verbatim>\<open>await api.get_data()\<close> does.
\<close>

definition async_setup_entry ::
  "imported \<Rightarrow> (string \<rightharpoonup> (string \<rightharpoonup> RealTimeAPI)) \<Rightarrow> string \<Rightarrow> 'a fetched \<Rightarrow>
   pyexc + 'a platform" where
  "async_setup_entry imp hass_data entry_id fetch =
     (case hass_data (DOMAIN imp) of
        None \<Rightarrow> Inl (KeyError (DOMAIN imp))
      | Some domain_data \<Rightarrow>
          (case domain_data entry_id of
             None \<Rightarrow> Inl (KeyError entry_id)
           | Some api' \<Rightarrow>
               (case fetch of
                  Inl err \<Rightarrow> Inl err
                | Inr resp \<Rightarrow>
                    (let serial = serial_number resp;
                         version' = version resp;
                         endpoint' = RealTimeDataEndpoint_init api';
                         devices = map (make_device imp api' serial version')
                                       (inverter_sensor_map api')
                     in Inr \<lparr>endpoint = endpoint'\<lparr>sensors := devices\<rparr>,
                             queued_refreshes = [None],
                             tracked_intervals = [SCAN_INTERVAL],
                             added_entities = devices\<rparr>))))"

subsection \<open>A concrete installation\<close>

text \<open>
  An inverter with four sensors, used to evaluate the definitions: a client library whose
  \<^verbatim>\<open>==\<close> compares the wrapped member, and a first response carrying one reading.
\<close>

definition demo_imported :: imported where
  "demo_imported =
     \<lparr>DOMAIN = ''solax'',
      MANUFACTURER = ''SolaX Power'',
      unit_eq = (\<lambda>u x. unit u = x),
      Units_value = (\<lambda>x. case x of
          Units_C \<Rightarrow> ''C'' | Units_KWH \<Rightarrow> ''kWh'' | Units_V \<Rightarrow> ''V'' | Units_A \<Rightarrow> ''A''
        | Units_W \<Rightarrow> ''W'' | Units_PERCENT \<Rightarrow> ''%'' | Units_other v \<Rightarrow> v)\<rparr>"

definition demo_api :: RealTimeAPI where
  "demo_api =
     \<lparr>inverter_manufacturer = ''Solax'',
      inverter_sensor_map =
        [(''soc'', 0, \<lparr>isinstance_Monotonic = False, unit = Units_PERCENT\<rparr>),
         (''pv1_power'', 1, \<lparr>isinstance_Monotonic = False, unit = Units_W\<rparr>),
         (''grid_frequency'', 2, \<lparr>isinstance_Monotonic = False, unit = Units_other ''Hz''\<rparr>),
         (''total_yield'', 3, \<lparr>isinstance_Monotonic = True, unit = Units_KWH\<rparr>)]\<rparr>"

definition demo_hass_data :: "string \<rightharpoonup> (string \<rightharpoonup> RealTimeAPI)" where
  "demo_hass_data = [''solax'' \<mapsto> [''entry1'' \<mapsto> demo_api]]"

definition demo_response :: "int InverterResponse" where
  "demo_response =
     \<lparr>data = [''soc'' \<mapsto> PyVal 42], serial_number = ''SN1'', version = ''1.0''\<rparr>"

definition demo_endpoint :: "int RealTimeDataEndpoint" where
  "demo_endpoint =
     \<lparr>api = demo_api,
      ready = False,
      sensors = map (make_device demo_imported demo_api ''SN1'' ''1.0'')
                    (inverter_sensor_map demo_api)\<rparr>"

section \<open>Properties of the refresh loop\<close>

lemma fst_refresh_sensors_Cons:
  "fst (refresh_sensors d i (s # ss)) =
     (case d (key s) of None \<Rightarrow> s | Some v \<Rightarrow> s\<lparr>sensor_value := v\<rparr>)
       # fst (refresh_sensors d (Suc i) ss)"
  by (simp split: prod.splits option.splits)

lemma snd_refresh_sensors_Cons:
  "snd (refresh_sensors d i (s # ss)) =
     (case d (key s) of None \<Rightarrow> [] | Some v \<Rightarrow> [i]) @ snd (refresh_sensors d (Suc i) ss)"
  by (simp split: prod.splits option.splits)

lemma fst_refresh_sensors:
  "fst (refresh_sensors d i ss) =
     map (\<lambda>s. case d (key s) of None \<Rightarrow> s | Some v \<Rightarrow> s\<lparr>sensor_value := v\<rparr>) ss"
proof (induction ss arbitrary: i)
  case Nil
  show ?case by simp
next
  case (Cons s ss)
  show ?case
    unfolding fst_refresh_sensors_Cons Cons.IH by simp
qed

lemma length_refresh_sensors:
  "length (fst (refresh_sensors d i ss)) = length ss"
  by (simp add: fst_refresh_sensors)

lemma nth_refresh_sensors:
  "n < length ss \<Longrightarrow>
   fst (refresh_sensors d i ss) ! n =
     (case d (key (ss ! n)) of None \<Rightarrow> ss ! n | Some v \<Rightarrow> (ss ! n)\<lparr>sensor_value := v\<rparr>)"
  by (simp add: fst_refresh_sensors)

lemma set_updates_refresh_sensors:
  "set (snd (refresh_sensors d i ss)) = {i + n | n. n < length ss \<and> d (key (ss ! n)) \<noteq> None}"
proof (induction ss arbitrary: i)
  case Nil
  then show ?case by simp
next
  case (Cons s ss)
  have shift: "{i + n | n. n < length (s # ss) \<and> d (key ((s # ss) ! n)) \<noteq> None} =
        (if d (key s) \<noteq> None then {i} else {}) \<union>
        {Suc i + n | n. n < length ss \<and> d (key (ss ! n)) \<noteq> None}"
    (is "?L = ?R")
  proof (rule set_eqI)
    fix x
    show "x \<in> ?L \<longleftrightarrow> x \<in> ?R"
    proof
      assume "x \<in> ?L"
      then obtain n where n: "x = i + n" "n < length (s # ss)" "d (key ((s # ss) ! n)) \<noteq> None"
        by blast
      show "x \<in> ?R"
      proof (cases n)
        case 0
        with n show ?thesis by simp
      next
        case (Suc k)
        with n have "x = Suc i + k" "k < length ss" "d (key (ss ! k)) \<noteq> None" by simp_all
        then show ?thesis by blast
      qed
    next
      assume "x \<in> ?R"
      then consider "d (key s) \<noteq> None" "x = i"
        | k where "x = Suc i + k" "k < length ss" "d (key (ss ! k)) \<noteq> None"
        by (auto split: if_splits)
      then show "x \<in> ?L"
      proof cases
        case 1
        then have "x = i + 0" "0 < length (s # ss)" "d (key ((s # ss) ! 0)) \<noteq> None" by simp_all
        then show ?thesis by blast
      next
        case 2
        then have "x = i + Suc k" "Suc k < length (s # ss)" "d (key ((s # ss) ! Suc k)) \<noteq> None"
          by simp_all
        then show ?thesis by blast
      qed
    qed
  qed
  have "set (snd (refresh_sensors d i (s # ss))) =
        (if d (key s) \<noteq> None then {i} else {}) \<union> set (snd (refresh_sensors d (Suc i) ss))"
    unfolding snd_refresh_sensors_Cons by (cases "d (key s)") simp_all
  with Cons.IH [of "Suc i"] show ?case
    unfolding shift by simp
qed

lemma after_success:
  "after (async_refresh self now (Inr S)) =
     self\<lparr>ready := True, sensors := fst (refresh_sensors (data S) 0 (sensors self))\<rparr>"
  by (simp add: async_refresh_def Let_def split: prod.splits)

lemma scheduled_updates_success:
  "scheduled_updates (async_refresh self now (Inr S)) =
     snd (refresh_sensors (data S) 0 (sensors self))"
  by (simp add: async_refresh_def Let_def split: prod.splits)

lemma raised_success:
  "raised (async_refresh self now (Inr S)) = None"
  by (simp add: async_refresh_def Let_def split: prod.splits)

section \<open>Refreshing\<close>

text \<open>
  C1. After a refresh whose fetch returned the snapshot \<open>S\<close>, every entity of the endpoint
  whose key is a key of \<open>data S\<close> holds the value \<open>S\<close> has for that key, and
  \<^verbatim>\<open>async_schedule_update_ha_state()\<close> has been called on it; the call returns without an
  exception, and the entity at each position is the one that was there.
\<close>

theorem refresh_overwrites_present_keys:
  assumes "i < length (sensors self)"
    and "data S (key (sensors self ! i)) = Some v"
  shows "raised (async_refresh self now (Inr S)) = None \<and>
         length (sensors (after (async_refresh self now (Inr S)))) = length (sensors self) \<and>
         key (sensors (after (async_refresh self now (Inr S))) ! i) = key (sensors self ! i) \<and>
         sensor_value (sensors (after (async_refresh self now (Inr S))) ! i) = v \<and>
         i \<in> set (scheduled_updates (async_refresh self now (Inr S)))"
proof -
  have "sensors (after (async_refresh self now (Inr S))) ! i = (sensors self ! i)\<lparr>sensor_value := v\<rparr>"
    using assms by (simp add: after_success nth_refresh_sensors)
  moreover have "i \<in> set (scheduled_updates (async_refresh self now (Inr S)))"
    using assms by (simp add: scheduled_updates_success set_updates_refresh_sensors)
  ultimately show ?thesis
    by (simp add: raised_success after_success length_refresh_sensors)
qed

theorem refresh_overwrites_present_keys_witness:
  "sensor_value (sensors (after (async_refresh demo_endpoint None (Inr demo_response))) ! 0) = PyVal 42 \<and>
   0 \<in> set (scheduled_updates (async_refresh demo_endpoint None (Inr demo_response)))"
  using refresh_overwrites_present_keys [of 0 demo_endpoint demo_response "PyVal 42" None]
  by (simp add: demo_endpoint_def demo_api_def demo_response_def InverterEntity_init_def)

text \<open>
  C2. After a refresh whose fetch returned the snapshot \<open>S\<close>, an entity whose key is not a
  key of \<open>data S\<close> is the entity it was, in every field, and no update was requested for
  it; and every entity, updated or not, differs from what it was in its value at most.
\<close>

theorem refresh_keeps_absent_keys:
  assumes "i < length (sensors self)"
  shows "(data S (key (sensors self ! i)) = None \<longrightarrow>
            sensors (after (async_refresh self now (Inr S))) ! i = sensors self ! i \<and>
            i \<notin> set (scheduled_updates (async_refresh self now (Inr S)))) \<and>
         sensors (after (async_refresh self now (Inr S))) ! i =
           (sensors self ! i)
             \<lparr>sensor_value := sensor_value (sensors (after (async_refresh self now (Inr S))) ! i)\<rparr>"
proof -
  have "sensors (after (async_refresh self now (Inr S))) ! i =
          (case data S (key (sensors self ! i)) of
             None \<Rightarrow> sensors self ! i
           | Some v \<Rightarrow> (sensors self ! i)\<lparr>sensor_value := v\<rparr>)"
    using assms by (simp add: after_success nth_refresh_sensors)
  moreover have "data S (key (sensors self ! i)) = None \<Longrightarrow>
      i \<notin> set (scheduled_updates (async_refresh self now (Inr S)))"
    by (simp add: scheduled_updates_success set_updates_refresh_sensors)
  ultimately show ?thesis
    by (cases "data S (key (sensors self ! i))") simp_all
qed

theorem refresh_keeps_absent_keys_witness:
  "sensors (after (async_refresh demo_endpoint (Some 30) (Inr demo_response))) ! 1 =
     sensors demo_endpoint ! 1 \<and>
   1 \<notin> set (scheduled_updates (async_refresh demo_endpoint (Some 30) (Inr demo_response)))"
  using refresh_keeps_absent_keys [of 1 demo_endpoint demo_response "Some 30"]
  by (simp add: demo_endpoint_def demo_api_def demo_response_def InverterEntity_init_def)







text \<open>
  C5, as the claim states it, fails: a refresh called without \<^verbatim>\<open>now\<close> whose fetch
  raises \<^verbatim>\<open>InverterError\<close> does not touch the readiness flag. Here a fresh endpoint is
  refreshed with success and then, again without \<^verbatim>\<open>now\<close>, with a failing fetch: the
  second call raises and the flag is still true.
\<close>

theorem readiness_after_startup_failure_counterexample:
  "ready (after (async_refresh
            (after (async_refresh demo_endpoint None (Inr demo_response)))
            None (Inl (InverterError ''timeout'')))) \<and>
   raised (async_refresh
            (after (async_refresh demo_endpoint None (Inr demo_response)))
            None (Inl (InverterError ''timeout''))) =
     Some (PlatformNotReady (InverterError ''timeout''))"
  by (simp add: async_refresh_def Let_def split: prod.splits)

text \<open>
  C5, amended. A refresh whose fetch succeeds leaves the readiness flag true, whatever
  \<^verbatim>\<open>now\<close> is; a refresh called by the timer whose fetch raises \<^verbatim>\<open>InverterError\<close> leaves
  it false; a refresh called without \<^verbatim>\<open>now\<close> whose fetch raises \<^verbatim>\<open>InverterError\<close>
  raises \<^verbatim>\<open>PlatformNotReady\<close> and leaves the flag as it was, which on a freshly
  constructed endpoint is false.
\<close>

theorem readiness_transitions:
  "ready (after (async_refresh self now (Inr S))) \<and>
   \<not> ready (after (async_refresh self (Some t) (Inl (InverterError m)))) \<and>
   ready (after (async_refresh self None (Inl (InverterError m)))) = ready self \<and>
   raised (async_refresh self None (Inl (InverterError m))) =
     Some (PlatformNotReady (InverterError m)) \<and>
   \<not> ready (after (async_refresh (RealTimeDataEndpoint_init a) None (Inl (InverterError m))))"
  by (simp add: async_refresh_def RealTimeDataEndpoint_init_def Let_def split: prod.splits)

text \<open>
  C9. When the fetch raises anything that is not an \<^verbatim>\<open>InverterError\<close>, the refresh raises
  that same exception, with or without \<^verbatim>\<open>now\<close>, and the endpoint (its readiness flag
  and its entities) is as it was; no update is requested.
\<close>

theorem other_exceptions_propagate:
  assumes "\<forall>m. e \<noteq> InverterError m"
  shows "raised (async_refresh self now (Inl e)) = Some e \<and>
         after (async_refresh self now (Inl e)) = self \<and>
         ready (after (async_refresh self now (Inl e))) = ready self \<and>
         sensors (after (async_refresh self now (Inl e))) = sensors self \<and>
         scheduled_updates (async_refresh self now (Inl e)) = []"
  using assms by (cases e) (simp_all add: async_refresh_def)

theorem other_exceptions_propagate_witness:
  "(\<forall>m. OtherException ''TimeoutError'' \<noteq> InverterError m) \<and>
   raised (async_refresh (demo_endpoint\<lparr>ready := True\<rparr>) (Some 60)
            (Inl (OtherException ''TimeoutError''))) = Some (OtherException ''TimeoutError'') \<and>
   ready (after (async_refresh (demo_endpoint\<lparr>ready := True\<rparr>) (Some 60)
            (Inl (OtherException ''TimeoutError''))))"
  using other_exceptions_propagate
    [of "OtherException ''TimeoutError''" "demo_endpoint\<lparr>ready := True\<rparr>" "Some 60"]
  by simp

text \<open>
  C6. The platform is set up for an inverter whose sensor map is \<open>soc\<close> (percent) and
  \<open>pv1_power\<close> (watt): both entities start with the value \<^verbatim>\<open>None\<close>. A refresh with the
  snapshot \<open>{soc: 42}\<close> leaves \<open>soc = 42\<close> and \<open>pv1_power = None\<close>; a following refresh
  with \<open>{soc: 50, pv1_power: 1200}\<close> leaves \<open>soc = 50\<close> and \<open>pv1_power = 1200\<close>. Neither
  refresh raises.
\<close>

theorem scenario_soc_pv1_power:
  "case async_setup_entry imp
          [DOMAIN imp \<mapsto>
            [eid \<mapsto> \<lparr>inverter_manufacturer = mf,
                     inverter_sensor_map =
                       [(''soc'', i1, \<lparr>isinstance_Monotonic = m1, unit = Units_PERCENT\<rparr>),
                        (''pv1_power'', i2, \<lparr>isinstance_Monotonic = m2, unit = Units_W\<rparr>)]\<rparr>]]
          eid (Inr resp0)
   of Inl e \<Rightarrow> False
    | Inr p \<Rightarrow>
        (let r1 = async_refresh (endpoint p) now1
                    (Inr (resp1\<lparr>data := [''soc'' \<mapsto> PyVal (42::int)]\<rparr>));
             r2 = async_refresh (after r1) now2
                    (Inr (resp2\<lparr>data := [''soc'' \<mapsto> PyVal 50, ''pv1_power'' \<mapsto> PyVal 1200]\<rparr>))
         in map (\<lambda>s. (key s, sensor_value s)) (sensors (endpoint p)) =
              [(''soc'', PyNone), (''pv1_power'', PyNone)] \<and>
            raised r1 = None \<and>
            map (\<lambda>s. (key s, sensor_value s)) (sensors (after r1)) =
              [(''soc'', PyVal 42), (''pv1_power'', PyNone)] \<and>
            raised r2 = None \<and>
            map (\<lambda>s. (key s, sensor_value s)) (sensors (after r2)) =
              [(''soc'', PyVal 50), (''pv1_power'', PyVal 1200)])"
  by (simp add: async_setup_entry_def RealTimeDataEndpoint_init_def InverterEntity_init_def
      async_refresh_def Let_def)

section \<open>Setting up the platform\<close>

lemma async_setup_entry_Inr:
  assumes "hass_data (DOMAIN imp) = Some domain_data"
    and "domain_data entry_id = Some api'"
  shows "async_setup_entry imp hass_data entry_id (Inr resp) =
     Inr \<lparr>endpoint =
            \<lparr>api = api', ready = False,
             sensors = map (make_device imp api' (serial_number resp) (version resp))
                           (inverter_sensor_map api')\<rparr>,
          queued_refreshes = [None],
          tracked_intervals = [SCAN_INTERVAL],
          added_entities = map (make_device imp api' (serial_number resp) (version resp))
                               (inverter_sensor_map api')\<rparr>"
  using assms by (simp add: async_setup_entry_def RealTimeDataEndpoint_init_def Let_def)

lemma async_setup_entry_cases:
  assumes "async_setup_entry imp hass_data entry_id fetch = Inr p"
  obtains domain_data api' resp where
    "hass_data (DOMAIN imp) = Some domain_data" "domain_data entry_id = Some api'"
    "fetch = Inr resp"
  using assms by (auto simp: async_setup_entry_def split: option.splits sum.splits)

text \<open>
  C7. The device class is \<^verbatim>\<open>TEMPERATURE\<close> exactly when the attribute \<^verbatim>\<open>unit\<close> of the
  unit object is \<^verbatim>\<open>Units.C\<close>, whatever the object itself compares equal to; and when that
  attribute is not \<^verbatim>\<open>Units.C\<close>, the device class is \<^verbatim>\<open>ENERGY\<close> exactly when the unit
  object itself compares equal to \<^verbatim>\<open>Units.KWH\<close>, whatever its attribute \<^verbatim>\<open>unit\<close> is. So
  two unit objects with the same comparison behaviour are told apart by their attribute in
  the temperature case only.
\<close>

theorem device_class_comparison_axes:
  "(device_class_of imp u = Some TEMPERATURE \<longleftrightarrow> unit u = Units_C) \<and>
   (unit u \<noteq> Units_C \<longrightarrow>
      (device_class_of imp u = Some ENERGY \<longleftrightarrow> unit_eq imp u Units_KWH)) \<and>
   (unit u \<noteq> Units_C \<and> unit u' \<noteq> Units_C \<and> (\<forall>x. unit_eq imp u x = unit_eq imp u' x) \<longrightarrow>
      device_class_of imp u = device_class_of imp u')"
  by (simp add: device_class_of_def)

theorem device_class_comparison_axes_witness:
  "device_class_of (demo_imported\<lparr>unit_eq := \<lambda>u x. False\<rparr>)
     \<lparr>isinstance_Monotonic = False, unit = Units_C\<rparr> = Some TEMPERATURE \<and>
   device_class_of (demo_imported\<lparr>unit_eq := \<lambda>u x. False\<rparr>)
     \<lparr>isinstance_Monotonic = True, unit = Units_KWH\<rparr> = None \<and>
   device_class_of (demo_imported\<lparr>unit_eq := \<lambda>u x. False\<rparr>)
     \<lparr>isinstance_Monotonic = True, unit = Units_KWH\<rparr> =
   device_class_of (demo_imported\<lparr>unit_eq := \<lambda>u x. False\<rparr>)
     \<lparr>isinstance_Monotonic = False, unit = Units_V\<rparr>"
  using device_class_comparison_axes
    [of "demo_imported\<lparr>unit_eq := \<lambda>u x. False\<rparr>"
        "\<lparr>isinstance_Monotonic = True, unit = Units_KWH\<rparr>"
        "\<lparr>isinstance_Monotonic = False, unit = Units_V\<rparr>"]
    device_class_comparison_axes
    [of "demo_imported\<lparr>unit_eq := \<lambda>u x. False\<rparr>"
        "\<lparr>isinstance_Monotonic = False, unit = Units_C\<rparr>"]
  by (simp add: device_class_of_def)

text \<open>
  C8. Whatever the configuration entry, the host's data and the inverter's answer are, a
  setup that completes has registered the refresh with the interval timer once, at
  \<^verbatim>\<open>SCAN_INTERVAL\<close>, which is 30 seconds.
\<close>

theorem poll_interval_is_30_seconds:
  assumes "async_setup_entry imp hass_data entry_id fetch = Inr p"
  shows "tracked_intervals p = [SCAN_INTERVAL] \<and>
         total_seconds SCAN_INTERVAL = 30 \<and>
         SCAN_INTERVAL = \<lparr>days = 0, seconds = 30, microseconds = 0\<rparr>"
proof -
  from assms obtain domain_data api' resp where
    "hass_data (DOMAIN imp) = Some domain_data" "domain_data entry_id = Some api'"
    "fetch = Inr resp"
    by (rule async_setup_entry_cases)
  with assms have "tracked_intervals p = [SCAN_INTERVAL]"
    by (auto simp: async_setup_entry_Inr)
  then show ?thesis
    by (simp add: SCAN_INTERVAL_def timedelta_seconds_def total_seconds_def)
qed

theorem poll_interval_is_30_seconds_witness:
  "case async_setup_entry demo_imported demo_hass_data ''entry1'' (Inr demo_response) of
     Inl e \<Rightarrow> False
   | Inr p \<Rightarrow> map total_seconds (tracked_intervals p) = [30]"
proof -
  obtain p where p: "async_setup_entry demo_imported demo_hass_data ''entry1'' (Inr demo_response) = Inr p"
    by (simp add: async_setup_entry_def demo_imported_def demo_hass_data_def Let_def)
  from poll_interval_is_30_seconds [OF p] have "map total_seconds (tracked_intervals p) = [30]"
    by simp
  with p show ?thesis by simp
qed

text \<open>
  C10. A setup that finds its API and whose fetch returns builds one entity for every item
  of the sensor map, in order, and hands the same list to the endpoint and to
  \<^verbatim>\<open>async_add_entities\<close>. The entity of an item has the item's key, the state class
  \<^verbatim>\<open>TOTAL_INCREASING\<close> if the unit object is a \<^verbatim>\<open>Monotonic\<close> and \<^verbatim>\<open>MEASUREMENT\<close>
  otherwise, and no device class when none of the six comparisons of the unit succeeds.
\<close>

theorem setup_assigns_state_and_device_class:
  assumes "hass_data (DOMAIN imp) = Some domain_data"
    and "domain_data entry_id = Some api'"
  shows "case async_setup_entry imp hass_data entry_id (Inr resp) of
           Inl e \<Rightarrow> False
         | Inr p \<Rightarrow>
             added_entities p = sensors (endpoint p) \<and>
             length (added_entities p) = length (inverter_sensor_map api') \<and>
             (\<forall>i < length (inverter_sensor_map api').
                case inverter_sensor_map api' ! i of
                  (sensor, idx, unit') \<Rightarrow>
                    key (added_entities p ! i) = sensor \<and>
                    attr_state_class (added_entities p ! i) =
                      Some (if isinstance_Monotonic unit' then TOTAL_INCREASING else MEASUREMENT) \<and>
                    (unit unit' \<noteq> Units_C \<and>
                     \<not> unit_eq imp unit' Units_KWH \<and>
                     \<not> unit_eq imp unit' Units_V \<and>
                     \<not> unit_eq imp unit' Units_A \<and>
                     \<not> unit_eq imp unit' Units_W \<and>
                     \<not> unit_eq imp unit' Units_PERCENT \<longrightarrow>
                       attr_device_class (added_entities p ! i) = None))"
proof -
  let ?mk = "make_device imp api' (serial_number resp) (version resp)"
  have item: "case x of
        (sensor, idx, unit') \<Rightarrow>
          key (?mk x :: 'a InverterEntity) = sensor \<and>
          attr_state_class (?mk x :: 'a InverterEntity) =
            Some (if isinstance_Monotonic unit' then TOTAL_INCREASING else MEASUREMENT) \<and>
          (unit unit' \<noteq> Units_C \<and>
           \<not> unit_eq imp unit' Units_KWH \<and>
           \<not> unit_eq imp unit' Units_V \<and>
           \<not> unit_eq imp unit' Units_A \<and>
           \<not> unit_eq imp unit' Units_W \<and>
           \<not> unit_eq imp unit' Units_PERCENT \<longrightarrow>
             attr_device_class (?mk x :: 'a InverterEntity) = None)" for x
    by (cases x) (simp add: InverterEntity_init_def state_class_of_def device_class_of_def)
  have "async_setup_entry imp hass_data entry_id (Inr resp) =
     Inr \<lparr>endpoint = \<lparr>api = api', ready = False, sensors = map ?mk (inverter_sensor_map api')\<rparr>,
          queued_refreshes = [None],
          tracked_intervals = [SCAN_INTERVAL],
          added_entities = map ?mk (inverter_sensor_map api')\<rparr>"
    using assms by (rule async_setup_entry_Inr)
  then show ?thesis
    using item by simp
qed

theorem setup_assigns_state_and_device_class_witness:
  "case async_setup_entry demo_imported demo_hass_data ''entry1'' (Inr demo_response) of
     Inl e \<Rightarrow> False
   | Inr p \<Rightarrow>
       length (added_entities p) = 4 \<and>
       key (added_entities p ! 2) = ''grid_frequency'' \<and>
       attr_state_class (added_entities p ! 2) = Some MEASUREMENT \<and>
       attr_device_class (added_entities p ! 2) = None \<and>
       attr_state_class (added_entities p ! 3) = Some TOTAL_INCREASING"
  using setup_assigns_state_and_device_class
    [of demo_hass_data demo_imported "[''entry1'' \<mapsto> demo_api]" "''entry1''" demo_api demo_response]
  by (simp add: demo_hass_data_def demo_imported_def demo_api_def async_setup_entry_def
      RealTimeDataEndpoint_init_def InverterEntity_init_def state_class_of_def
      device_class_of_def Let_def)

end
